theory Spec2Isabelle
  imports Main "HOL-Library.Sublist"
begin

section \<open>Library functions used by the program\<close>

text \<open>
  The program is Go. The functions of this section belong to the Go standard library, not
  to the repository; each is written out as the library documents it, so that the
  argument vector of the encoder can be computed on concrete inputs.
\<close>

subsection \<open>Decimal output of integers: \<^verbatim>\<open>%d\<close> and \<^verbatim>\<open>strconv.Itoa\<close>\<close>

definition digit_char :: "nat \<Rightarrow> char" where
  "digit_char d = ''0123456789'' ! (d mod 10)"

function show_nat :: "nat \<Rightarrow> string" where
  "show_nat n = (if n < 10 then [digit_char n] else show_nat (n div 10) @ [digit_char (n mod 10)])"
  by pat_completeness auto
termination
  by (relation "measure (\<lambda>n. n)") auto

declare show_nat.simps [simp del]

definition show_int :: "int \<Rightarrow> string" where
  "show_int i = (if i < 0 then CHR ''-'' # show_nat (nat (- i)) else show_nat (nat i))"

subsection \<open>64-bit floating point values and \<^verbatim>\<open>%.6f\<close>\<close>

text \<open>
  A \<^verbatim>\<open>float64\<close> is a sign, a mantissa and a binary exponent, an infinity, or NaN:
  \<open>Finite s m e\<close> is the number \<open>(-1)\<^sup>s * m * 2\<^sup>e\<close>. The bounds of mantissa and
  exponent are left out, so every \<^verbatim>\<open>float64\<close> is a value of the type. Negative zero is
  \<open>Finite True 0 e\<close>.
\<close>

datatype float64 = Finite bool nat int | Inf bool | NaN

text \<open>The comparison \<^verbatim>\<open>x > 0\<close>: false for both zeros and for NaN.\<close>

fun gt0 :: "float64 \<Rightarrow> bool" where
  "gt0 (Finite s m e) = (\<not> s \<and> 0 < m)"
| "gt0 (Inf s) = (\<not> s)"
| "gt0 NaN = False"

text \<open>
  \<open>micros m e\<close> is \<open>m * 2\<^sup>e * 10\<^sup>6\<close> rounded to the nearest integer, a tie going to the
  even neighbour, as \<^verbatim>\<open>strconv\<close> rounds the exact decimal expansion.
\<close>

definition micros :: "nat \<Rightarrow> int \<Rightarrow> nat" where
  "micros m e =
     (if 0 \<le> e then m * 1000000 * 2 ^ nat e
      else let d = 2 ^ nat (- e); q = (m * 1000000) div d; r = (m * 1000000) mod d
           in if d < 2 * r \<or> (2 * r = d \<and> odd q) then q + 1 else q)"

definition pad6 :: "nat \<Rightarrow> string" where
  "pad6 n = [digit_char (n div 100000), digit_char (n div 10000), digit_char (n div 1000),
             digit_char (n div 100), digit_char (n div 10), digit_char n]"

fun fmt6 :: "float64 \<Rightarrow> string" where
  "fmt6 (Finite s m e) =
     (let n = micros m e
      in (if s then ''-'' else '''') @ show_nat (n div 1000000) @ ''.'' @ pad6 (n mod 1000000))"
| "fmt6 (Inf s) = (if s then ''-Inf'' else ''+Inf'')"
| "fmt6 NaN = ''NaN''"

subsection \<open>\<^verbatim>\<open>strings.Join\<close> and \<^verbatim>\<open>strings.Replace\<close>\<close>

fun strings_Join :: "string list \<Rightarrow> string \<Rightarrow> string" where
  "strings_Join [] sep = []"
| "strings_Join [x] sep = x"
| "strings_Join (x # y # ys) sep = x @ sep @ strings_Join (y # ys) sep"

text \<open>\<^verbatim>\<open>strings.Replace(s, old, new, 1)\<close>: the first occurrence of \<open>old\<close>, if any, is replaced.\<close>

fun strings_Replace1 :: "string \<Rightarrow> string \<Rightarrow> string \<Rightarrow> string" where
  "strings_Replace1 [] old new = (if old = [] then new else [])"
| "strings_Replace1 (c # cs) old new =
     (if prefix old (c # cs) then new @ drop (length old) (c # cs)
      else c # strings_Replace1 cs old new)"

subsection \<open>\<^verbatim>\<open>path.Join\<close>\<close>

text \<open>
  \<^verbatim>\<open>path.Clean\<close> works on the names between slashes: empty names and \<^verbatim>\<open>.\<close> are dropped,
  \<^verbatim>\<open>..\<close> removes the name before it, is dropped at the root, and is kept at the start of a
  path that is not rooted. The names kept so far are held in reverse.
\<close>

fun split_slash :: "string \<Rightarrow> string list" where
  "split_slash [] = [[]]"
| "split_slash (c # cs) =
     (if c = CHR ''/'' then [] # split_slash cs
      else (case split_slash cs of [] \<Rightarrow> [[c]] | x # xs \<Rightarrow> (c # x) # xs))"

definition clean_step :: "bool \<Rightarrow> string list \<Rightarrow> string \<Rightarrow> string list" where
  "clean_step rooted st c =
     (if c = [] \<or> c = ''.'' then st
      else if c = ''..'' then
        (case st of
           [] \<Rightarrow> (if rooted then [] else [''..''])
         | t # ts \<Rightarrow> (if t = ''..'' then ''..'' # st else ts))
      else c # st)"

definition path_Clean :: "string \<Rightarrow> string" where
  "path_Clean p =
     (if p = [] then ''.''
      else let rooted = (hd p = CHR ''/'');
               st = foldl (clean_step rooted) [] (split_slash p);
               out = (if rooted then ''/'' else '''') @ strings_Join (rev st) ''/''
           in if out = [] then ''.'' else out)"

definition path_Join :: "string list \<Rightarrow> string" where
  "path_Join elem =
     (case dropWhile (\<lambda>e. e = []) elem of
        [] \<Rightarrow> []
      | e # es \<Rightarrow> path_Clean (strings_Join (e # es) ''/''))"

section \<open>The segment transcoder: \<^verbatim>\<open>hlsvod/transcode.go\<close>\<close>

subsection \<open>Data model\<close>

text \<open>An error value is its message. A nil pointer is \<open>None\<close>.\<close>

type_synonym error = string

record VideoProfile =
  Width :: int
  Height :: int
  Bitrate :: int

record AudioProfile =
  ABitrate :: int

record TranscodeConfig =
  InputFilePath :: string
  OutputDirPath :: string
  SegmentPrefix :: string
  SegmentOffset :: int
  SegmentTimes :: "float64 list"
  VideoProfile :: "VideoProfile option"
  AudioProfile :: "AudioProfile option"

record VideoInfo =
  PixelFormat :: string

record FFProbeOutput =
  Streams :: "VideoInfo list"

subsection \<open>The world outside, and what the program does to it\<close>

text \<open>
  Whatever the operating system and the JSON decoder answer is a parameter of the model:
  \<open>run_output\<close> is \<^verbatim>\<open>cmd.Output()\<close> of a command with its arguments, \<open>json_unmarshal\<close> is
  \<^verbatim>\<open>json.Unmarshal\<close> into an \<^verbatim>\<open>FFProbeOutput\<close>, \<open>stdout_pipe\<close> and \<open>stderr_pipe\<close> are the errors
  of \<^verbatim>\<open>cmd.StdoutPipe()\<close> and \<^verbatim>\<open>cmd.StderrPipe()\<close>, and \<open>start\<close> is the error of
  \<^verbatim>\<open>cmd.Start()\<close>.
\<close>

record world =
  run_output :: "string \<Rightarrow> string list \<Rightarrow> error + string"
  json_unmarshal :: "string \<Rightarrow> error + FFProbeOutput"
  stdout_pipe :: "error option"
  stderr_pipe :: "error option"
  start :: "string \<Rightarrow> string list \<Rightarrow> error option"

text \<open>The three goroutines that \<^verbatim>\<open>TranscodeSegments\<close> starts.\<close>

datatype task = Stdout_Reader | Stderr_Reader | Exit_Waiter

text \<open>
  The effects of a call, in the order in which the code performs them: a line handed to
  the logger, the run of the probe, the construction of the encoder command, the two
  pipes, the creation of the channel with its capacity, a goroutine started, and the
  start of the encoder.
\<close>

datatype event =
    Log string
  | Probe_Run string "string list"
  | Command string "string list"
  | Stdout_Pipe
  | Stderr_Pipe
  | Make_Chan nat
  | Go task
  | Start string "string list"

text \<open>A channel is known by its capacity.\<close>

datatype chan = Chan nat

record outcome =
  ret_chan :: "chan option"
  ret_err :: "error option"
  trace :: "event list"

subsection \<open>\<^verbatim>\<open>detectVideoFormat\<close>\<close>

definition detectVideoFormat :: "world \<Rightarrow> string \<Rightarrow> string \<Rightarrow> (error + string) \<times> event list" where
  "detectVideoFormat w ffprobeBinary inputPath =
     (let args = [''-v'', ''quiet'', ''-print_format'', ''json'', ''-show_streams'',
                  ''-select_streams'', ''v:0'', inputPath];
          tr = [Probe_Run ffprobeBinary args]
      in case run_output w ffprobeBinary args of
           Inl e \<Rightarrow> (Inl (''failed to run ffprobe: '' @ e), tr)
         | Inr output \<Rightarrow>
             (case json_unmarshal w output of
                Inl e \<Rightarrow> (Inl (''failed to parse ffprobe output: '' @ e), tr)
              | Inr probeOutput \<Rightarrow>
                  if length (Streams probeOutput) = 0
                  then (Inl ''no video streams found'', tr)
                  else (Inr (PixelFormat (Streams probeOutput ! 0)), tr)))"

subsection \<open>\<^verbatim>\<open>is422Format\<close>\<close>

definition format422 :: "string list" where
  "format422 =
     [''yuv422p'', ''yuv422p10le'', ''yuv422p12le'', ''yuv422p16le'', ''yuv422p9le'',
      ''yuv422p10be'', ''yuv422p12be'', ''yuv422p16be'', ''yuv422p9be'', ''yuv422p14le'',
      ''yuv422p14be'',
      ''yuyv422'', ''uyvy422'',
      ''yuvj422p'',
      ''yuva422p'', ''yuva422p9le'', ''yuva422p9be'', ''yuva422p10le'', ''yuva422p10be'',
      ''yuva422p12le'', ''yuva422p12be'', ''yuva422p16le'', ''yuva422p16be'',
      ''v210'', ''v216'',
      ''p210le'', ''p210be'', ''p216le'', ''p216be'']"

text \<open>The loop over the table returns at the first entry equal to the format.\<close>

fun scan422 :: "string list \<Rightarrow> string \<Rightarrow> bool" where
  "scan422 [] pixelFormat = False"
| "scan422 (f # fs) pixelFormat = (if pixelFormat = f then True else scan422 fs pixelFormat)"

definition is422Format :: "string \<Rightarrow> bool" where
  "is422Format pixelFormat = scan422 format422 pixelFormat"

subsection \<open>\<^verbatim>\<open>TranscodeSegments\<close>\<close>

text \<open>The loop of lines 133 to 139: each time is formatted and appended.\<close>

fun fmtSegTimes_loop :: "float64 list \<Rightarrow> string list \<Rightarrow> string list" where
  "fmtSegTimes_loop [] fmtSegTimes = fmtSegTimes"
| "fmtSegTimes_loop (segmentTime # rest) fmtSegTimes =
     fmtSegTimes_loop rest (fmtSegTimes @ [fmt6 segmentTime])"

text \<open>Lines 149 to 153: the seek argument.\<close>

definition seek_args :: "float64 \<Rightarrow> string list" where
  "seek_args startAt = (if gt0 startAt then [''-ss'', fmt6 startAt] else [])"

text \<open>Lines 156 to 162: the input.\<close>

definition input_args :: "TranscodeConfig \<Rightarrow> float64 \<Rightarrow> string \<Rightarrow> string list" where
  "input_args config endAt commaSeparatedSegTimes =
     [''-i'', InputFilePath config,
      ''-to'', fmt6 endAt,
      ''-copyts'',
      ''-force_key_frames'', commaSeparatedSegTimes,
      ''-sn'']"

text \<open>
  Lines 164 to 180: the probe, run only when a video profile is given. The result is the
  flag \<^verbatim>\<open>useHigh422Profile\<close> and the effects.
\<close>

definition probe_profile :: "world \<Rightarrow> string \<Rightarrow> TranscodeConfig \<Rightarrow> bool \<times> event list" where
  "probe_profile w ffmpegBinary config =
     (case VideoProfile config of
        None \<Rightarrow> (False, [])
      | Some _ \<Rightarrow>
          (let ffprobeBinary = strings_Replace1 ffmpegBinary ''ffmpeg'' ''ffprobe''
           in case detectVideoFormat w ffprobeBinary (InputFilePath config) of
                (Inl err, tr) \<Rightarrow>
                  (False,
                   tr @ [Log (''Warning: Could not detect video format, using default profile: '' @ err)])
              | (Inr pixelFormat, tr) \<Rightarrow>
                  (let useHigh422Profile = is422Format pixelFormat
                   in (useHigh422Profile,
                       tr @ [Log (''Detected pixel format: '' @ pixelFormat),
                             if useHigh422Profile
                             then Log (''Detected 4:2:2 format ('' @ pixelFormat @ ''), using high422 profile'')
                             else Log (''Using default profile for format: '' @ pixelFormat)]))))"

text \<open>Lines 186 to 191: the scale filter.\<close>

definition scale_filter :: "VideoProfile \<Rightarrow> string" where
  "scale_filter profile =
     (if Width profile \<ge> Height profile
      then ''scale=-2:'' @ show_int (Height profile)
      else ''scale='' @ show_int (Width profile) @ '':-2'')"

text \<open>Lines 183 to 206: the video arguments.\<close>

definition video_args :: "TranscodeConfig \<Rightarrow> bool \<Rightarrow> string list" where
  "video_args config useHigh422Profile =
     (case VideoProfile config of
        None \<Rightarrow> []
      | Some profile \<Rightarrow>
          (let scale = scale_filter profile;
               videoProfile = (if useHigh422Profile then ''high422'' else ''high'')
           in [''-vf'', scale,
               ''-c:v'', ''libx264'',
               ''-preset'', ''faster'',
               ''-profile:v'', videoProfile,
               ''-level:v'', ''4.0'',
               ''-b:v'', show_int (Bitrate profile) @ ''k'']))"

text \<open>Lines 209 to 216: the audio arguments.\<close>

definition audio_args :: "TranscodeConfig \<Rightarrow> string list" where
  "audio_args config =
     (case AudioProfile config of
        None \<Rightarrow> []
      | Some profile \<Rightarrow> [''-c:a'', ''aac'', ''-b:a'', show_int (ABitrate profile) @ ''k''])"

text \<open>Lines 219 to 228: the segmenter.\<close>

definition segment_args :: "TranscodeConfig \<Rightarrow> string \<Rightarrow> string list" where
  "segment_args config commaSeparatedSegTimes =
     [''-f'', ''segment'',
      ''-segment_time_delta'', ''0.2'',
      ''-segment_format'', ''mpegts'',
      ''-segment_times'', commaSeparatedSegTimes,
      ''-segment_start_number'', show_int (SegmentOffset config),
      ''-segment_list_type'', ''flat'',
      ''-segment_list'', ''pipe:1'',
      path_Join [OutputDirPath config, SegmentPrefix config @ ''-%05d.ts'']]"

text \<open>
  The function itself. The slice \<^verbatim>\<open>fmtSegTimes[1:]\<close> is taken only after the length check,
  so it is never out of range. After the two pipes the channel is made, two readers are
  started, the command is started, the goroutine that waits for its exit is started, and
  the channel is returned together with the error of the start.
\<close>

definition TranscodeSegments :: "world \<Rightarrow> string \<Rightarrow> TranscodeConfig \<Rightarrow> outcome" where
  "TranscodeSegments w ffmpegBinary config =
     (let totalSegments = length (SegmentTimes config)
      in if totalSegments < 2
         then \<lparr>ret_chan = None, ret_err = Some ''minimum 2 segment times needed'', trace = []\<rparr>
         else
           let startAt = SegmentTimes config ! 0;
               endAt = SegmentTimes config ! (totalSegments - 1);
               fmtSegTimes = fmtSegTimes_loop (SegmentTimes config) [];
               commaSeparatedSegTimes = strings_Join (drop 1 fmtSegTimes) '','';
               args = [''-loglevel'', ''warning''];
               args = args @ seek_args startAt;
               args = args @ input_args config endAt commaSeparatedSegTimes;
               (useHigh422Profile, tr) = probe_profile w ffmpegBinary config;
               args = args @ video_args config useHigh422Profile;
               args = args @ audio_args config;
               args = args @ segment_args config commaSeparatedSegTimes;
               tr = tr @ [Command ffmpegBinary args,
                          Log (''Starting FFmpeg process with args '' @
                               strings_Join (ffmpegBinary # args) '' ''),
                          Stdout_Pipe]
           in case stdout_pipe w of
                Some err \<Rightarrow> \<lparr>ret_chan = None, ret_err = Some err, trace = tr\<rparr>
              | None \<Rightarrow>
                  (let tr = tr @ [Stderr_Pipe]
                   in case stderr_pipe w of
                        Some err \<Rightarrow> \<lparr>ret_chan = None, ret_err = Some err, trace = tr\<rparr>
                      | None \<Rightarrow>
                          \<lparr>ret_chan = Some (Chan 1),
                           ret_err = start w ffmpegBinary args,
                           trace = tr @ [Make_Chan 1, Go Stdout_Reader, Go Stderr_Reader,
                                         Start ffmpegBinary args, Go Exit_Waiter]\<rparr>))"

text \<open>The argument vector of the encoder command that a call constructs, if it constructs one.\<close>

fun command_args :: "event list \<Rightarrow> string list option" where
  "command_args [] = None"
| "command_args (Command b args # es) = Some args"
| "command_args (e # es) = command_args es"

definition invocation :: "world \<Rightarrow> string \<Rightarrow> TranscodeConfig \<Rightarrow> string list option" where
  "invocation w ffmpegBinary config = command_args (trace (TranscodeSegments w ffmpegBinary config))"

text \<open>The probe runs of a call: binary and arguments.\<close>

fun probe_runs :: "event list \<Rightarrow> (string \<times> string list) list" where
  "probe_runs [] = []"
| "probe_runs (Probe_Run b args # es) = (b, args) # probe_runs es"
| "probe_runs (e # es) = probe_runs es"

section \<open>Process groups: \<^verbatim>\<open>internal/utils/cmdgroup\<close>\<close>

text \<open>
  Of \<^verbatim>\<open>exec.Cmd\<close> only the process handle matters, and of the handle only the process id.
  \<open>Process c = None\<close> is a command that was never started.
\<close>

record process =
  Pid :: int

record cmd =
  Process :: "process option"

text \<open>What \<^verbatim>\<open>platformKill\<close> does: a line logged with its error, or a call of the system.\<close>

datatype kill_event =
    Log_Err error string
  | Getpgid int
  | Process_Kill int
  | Sys_Kill int int
  | Run_Command string "string list"

text \<open>
  The POSIX system: \<^verbatim>\<open>syscall.Getpgid\<close>, \<^verbatim>\<open>syscall.Kill\<close> with the target and the signal,
  and \<^verbatim>\<open>Process.Kill\<close>.
\<close>

record posix_sys =
  getpgid :: "int \<Rightarrow> error + int"
  sys_kill :: "int \<Rightarrow> int \<Rightarrow> error option"
  process_kill :: "int \<Rightarrow> error option"

definition SIGKILL :: int where
  "SIGKILL = 9"

definition platformKill_posix :: "posix_sys \<Rightarrow> cmd option \<Rightarrow> error option \<times> kill_event list" where
  "platformKill_posix sys c =
     (case c of
        None \<Rightarrow> (None, [])
      | Some c \<Rightarrow>
          (case Process c of
             None \<Rightarrow> (None, [])
           | Some p \<Rightarrow>
               (case getpgid sys (Pid p) of
                  Inl err \<Rightarrow>
                    (process_kill sys (Pid p),
                     [Getpgid (Pid p), Log_Err err ''could not get process group id'',
                      Process_Kill (Pid p)])
                | Inr pgid \<Rightarrow>
                    (sys_kill sys (- pgid) SIGKILL,
                     [Getpgid (Pid p), Sys_Kill (- pgid) SIGKILL]))))"

text \<open>The Windows system: \<^verbatim>\<open>Run()\<close> of a command with its arguments.\<close>

record windows_sys =
  run :: "string \<Rightarrow> string list \<Rightarrow> error option"

definition platformKill_windows :: "windows_sys \<Rightarrow> cmd option \<Rightarrow> error option \<times> kill_event list" where
  "platformKill_windows sys c =
     (case c of
        None \<Rightarrow> (None, [])
      | Some c \<Rightarrow>
          (case Process c of
             None \<Rightarrow> (None, [])
           | Some p \<Rightarrow>
               (let args = [''/T'', ''/PID'', show_int (Pid p)]
                in (run sys ''TASKKILL'' args, [Run_Command ''TASKKILL'' args]))))"

text \<open>\<^verbatim>\<open>Kill\<close> is \<^verbatim>\<open>platformKill\<close> of the platform the program was built for.\<close>

definition Kill_posix :: "posix_sys \<Rightarrow> cmd option \<Rightarrow> error option \<times> kill_event list" where
  "Kill_posix sys c = platformKill_posix sys c"

definition Kill_windows :: "windows_sys \<Rightarrow> cmd option \<Rightarrow> error option \<times> kill_event list" where
  "Kill_windows sys c = platformKill_windows sys c"

section \<open>Notions used in the statements\<close>

definition is_digit :: "char \<Rightarrow> bool" where
  "is_digit c = (c \<in> set ''0123456789'')"

text \<open>Every character that \<^verbatim>\<open>%.6f\<close> and \<^verbatim>\<open>%d\<close> can print.\<close>

definition fmt_chars :: "char set" where
  "fmt_chars = set ''0123456789.-+InfNa''"

text \<open>A string has six decimal places: after its first point come exactly six digits.\<close>

definition six_decimals :: "string \<Rightarrow> bool" where
  "six_decimals s =
     (case dropWhile (\<lambda>c. c \<noteq> CHR ''.'') s of
        [] \<Rightarrow> False
      | p # ds \<Rightarrow> length ds = 6 \<and> list_all is_digit ds)"

fun is_finite :: "float64 \<Rightarrow> bool" where
  "is_finite (Finite s m e) = True"
| "is_finite (Inf s) = False"
| "is_finite NaN = False"

text \<open>
  A world in which the probe cannot run, the pipes open and the encoder starts, and the
  request of four boundaries at 0, 2, 4 and 6 seconds with both profiles.
\<close>

definition quiet_world :: world where
  "quiet_world =
     \<lparr>run_output = (\<lambda>b a. Inl ''exit status 1''),
      json_unmarshal = (\<lambda>s. Inl ''unexpected end of JSON input''),
      stdout_pipe = None, stderr_pipe = None, start = (\<lambda>b a. None)\<rparr>"

definition sample_config :: TranscodeConfig where
  "sample_config =
     \<lparr>InputFilePath = ''in.mp4'', OutputDirPath = ''/tmp/out'', SegmentPrefix = ''seg'',
      SegmentOffset = 0,
      SegmentTimes = [Finite False 0 0, Finite False 2 0, Finite False 4 0, Finite False 6 0],
      VideoProfile = Some \<lparr>Width = 1280, Height = 720, Bitrate = 2000\<rparr>,
      AudioProfile = Some \<lparr>ABitrate = 128\<rparr>\<rparr>"

text \<open>The sample request without its first boundary: it starts at 2 seconds.\<close>

definition late_config :: TranscodeConfig where
  "late_config = sample_config\<lparr>SegmentTimes := [Finite False 2 0, Finite False 4 0, Finite False 6 0]\<rparr>"

section \<open>Facts about the library functions\<close>

lemmas format_defs = show_nat.simps digit_char_def pad6_def micros_def Let_def show_int_def

lemma digit_char_is_digit: "is_digit (digit_char d)"
proof -
  have "d mod 10 < length ''0123456789''" by simp
  then have "''0123456789'' ! (d mod 10) \<in> set ''0123456789''" by (rule nth_mem)
  then show ?thesis by (simp only: is_digit_def digit_char_def)
qed

lemma show_nat_digits: "list_all is_digit (show_nat n)"
proof (induction n rule: show_nat.induct)
  case (1 n)
  show ?case
  proof (cases "n < 10")
    case True
    then show ?thesis by (subst show_nat.simps) (simp add: digit_char_is_digit)
  next
    case False
    with 1 show ?thesis by (subst show_nat.simps) (simp add: digit_char_is_digit)
  qed
qed

lemma pad6_digits: "list_all is_digit (pad6 n)"
  by (simp add: pad6_def digit_char_is_digit)

lemma length_pad6: "length (pad6 n) = 6"
  by (simp add: pad6_def)

lemma is_digit_fmt_chars: "is_digit c \<Longrightarrow> c \<in> fmt_chars"
  by (auto simp: is_digit_def fmt_chars_def)

lemma digits_fmt_chars: "list_all is_digit xs \<Longrightarrow> set xs \<subseteq> fmt_chars"
  by (auto simp: list_all_iff is_digit_fmt_chars)

lemma fmt6_chars: "set (fmt6 x) \<subseteq> fmt_chars"
proof (cases x)
  case (Finite s m e)
  have a: "set (show_nat (micros m e div 1000000)) \<subseteq> fmt_chars"
    by (rule digits_fmt_chars [OF show_nat_digits])
  have b: "set (pad6 (micros m e mod 1000000)) \<subseteq> fmt_chars"
    by (rule digits_fmt_chars [OF pad6_digits])
  have c: "CHR ''.'' \<in> fmt_chars" "CHR ''-'' \<in> fmt_chars" by (simp_all add: fmt_chars_def)
  show ?thesis using a b c by (cases s) (simp_all add: Finite Let_def)
next
  case (Inf s)
  then show ?thesis by (simp add: fmt_chars_def)
next
  case NaN
  then show ?thesis by (simp add: fmt_chars_def)
qed

lemma show_int_chars: "set (show_int i) \<subseteq> fmt_chars"
proof -
  have a: "\<And>n. set (show_nat n) \<subseteq> fmt_chars" by (rule digits_fmt_chars [OF show_nat_digits])
  have c: "CHR ''-'' \<in> fmt_chars" by (simp add: fmt_chars_def)
  show ?thesis using a c by (simp add: show_int_def)
qed

lemma strings_Join_chars:
  "(\<And>x. x \<in> set xs \<Longrightarrow> set x \<subseteq> A) \<Longrightarrow> set sep \<subseteq> A \<Longrightarrow> set (strings_Join xs sep) \<subseteq> A"
  by (induction xs sep rule: strings_Join.induct) auto

lemma s_not_fmt_char: "CHR ''s'' \<notin> fmt_chars"
  by (simp add: fmt_chars_def)

lemma fmt6_not_ss: "fmt6 x \<noteq> ''-ss''"
  using fmt6_chars [of x] s_not_fmt_char by auto

lemma show_int_not_ss: "show_int i \<noteq> ''-ss''"
  using show_int_chars [of i] s_not_fmt_char by auto

lemma csv_not_ss: "strings_Join (map fmt6 ts) '','' \<noteq> ''-ss''"
proof -
  have "set (strings_Join (map fmt6 ts) '','') \<subseteq> insert CHR '','' fmt_chars"
    by (rule strings_Join_chars) (use fmt6_chars in auto)
  then show ?thesis using s_not_fmt_char by auto
qed

lemma strings_Join_mem: "x \<in> set xs \<Longrightarrow> set x \<subseteq> set (strings_Join xs sep)"
  by (induction xs sep rule: strings_Join.induct) auto

lemma split_slash_nonempty: "split_slash s \<noteq> []"
  by (induction s) (auto split: list.splits)

lemma split_slash_append:
  "CHR ''/'' \<notin> set y \<Longrightarrow>
   split_slash (x @ y) = butlast (split_slash x) @ [last (split_slash x) @ y]"
proof (induction x)
  case Nil
  then show ?case by (induction y) (auto split: list.splits)
next
  case (Cons c x)
  then show ?case
    using split_slash_nonempty [of x] split_slash_nonempty [of "x @ y"]
    by (auto split: list.splits)
qed

lemma clean_step_keep:
  "c \<noteq> [] \<Longrightarrow> c \<noteq> ''.'' \<Longrightarrow> c \<noteq> ''..'' \<Longrightarrow> clean_step r st c = c # st"
  by (simp add: clean_step_def)

lemma path_Clean_suffix_char:
  assumes "CHR ''/'' \<notin> set y" and "a \<in> set y" and "a \<noteq> CHR ''.''"
  shows "a \<in> set (path_Clean (x @ y))"
proof -
  let ?c = "last (split_slash x) @ y"
  have ay: "a \<in> set ?c" using assms(2) by simp
  have c1: "?c \<noteq> []" using assms(2) by auto
  have c2: "?c \<noteq> ''.''"
  proof
    assume e: "?c = ''.''"
    have "a \<in> set ''.''" using ay unfolding e .
    then show False using assms(3) by simp
  qed
  have c3: "?c \<noteq> ''..''"
  proof
    assume e: "?c = ''..''"
    have "a \<in> set ''..''" using ay unfolding e .
    then show False using assms(3) by simp
  qed
  define r where "r = (hd (x @ y) = CHR ''/'')"
  define st where "st = foldl (clean_step r) [] (butlast (split_slash x))"
  have f: "foldl (clean_step r) [] (split_slash (x @ y)) = ?c # st"
    by (simp add: split_slash_append [OF assms(1)] st_def clean_step_keep [OF c1 c2 c3])
  have "set ?c \<subseteq> set (strings_Join (rev (?c # st)) ''/'')"
    by (rule strings_Join_mem) simp
  then have m: "a \<in> set (strings_Join (rev (?c # st)) ''/'')" using ay by blast
  have ne: "x @ y \<noteq> []" using assms(2) by auto
  show ?thesis
    using m ne unfolding path_Clean_def Let_def r_def [symmetric] f
    by (auto split: if_splits)
qed

lemma path_Join_suffix_char:
  assumes "CHR ''/'' \<notin> set y" and "a \<in> set y" and "a \<noteq> CHR ''.''"
  shows "a \<in> set (path_Join [d, p @ y])"
proof (cases "d = []")
  case True
  have "y \<noteq> []" using assms(2) by auto
  then have "path_Join [d, p @ y] = path_Clean (p @ y)"
    using True by (simp add: path_Join_def)
  then show ?thesis using path_Clean_suffix_char [OF assms] by simp
next
  case False
  then have "path_Join [d, p @ y] = path_Clean ((d @ ''/'' @ p) @ y)"
    by (simp add: path_Join_def)
  then show ?thesis using path_Clean_suffix_char [OF assms, of "d @ ''/'' @ p"] by simp
qed

lemma segment_path_not_ss: "path_Join [d, p @ ''-%05d.ts''] \<noteq> ''-ss''"
proof -
  have "CHR ''%'' \<in> set (path_Join [d, p @ ''-%05d.ts''])"
    by (rule path_Join_suffix_char) simp_all
  then show ?thesis by auto
qed

lemma show_nat_no_point: "CHR ''.'' \<notin> set (show_nat n)"
proof
  assume "CHR ''.'' \<in> set (show_nat n)"
  with show_nat_digits [of n] have "is_digit CHR ''.''" by (simp only: list_all_iff)
  then show False by (simp add: is_digit_def)
qed

lemma six_decimals_point: "CHR ''.'' \<notin> set pre \<Longrightarrow> six_decimals (pre @ CHR ''.'' # pad6 k)"
proof -
  assume a: "CHR ''.'' \<notin> set pre"
  have "dropWhile (\<lambda>c. c \<noteq> CHR ''.'') (pre @ CHR ''.'' # pad6 k)
      = dropWhile (\<lambda>c. c \<noteq> CHR ''.'') (CHR ''.'' # pad6 k)"
    by (rule dropWhile_append2) (use a in auto)
  also have "\<dots> = CHR ''.'' # pad6 k" by simp
  finally show ?thesis
    by (simp only: six_decimals_def list.case length_pad6 pad6_digits simp_thms)
qed

lemma six_decimals_fmt6: "is_finite t \<Longrightarrow> six_decimals (fmt6 t)"
proof (cases t)
  case (Finite s m e)
  let ?n = "micros m e"
  have p: "CHR ''.'' \<notin> set ((if s then ''-'' else '''') @ show_nat (?n div 1000000))"
    using show_nat_no_point [of "?n div 1000000"] by (cases s) simp_all
  have "fmt6 t = ((if s then ''-'' else '''') @ show_nat (?n div 1000000)) @ CHR ''.'' # pad6 (?n mod 1000000)"
    by (simp add: Finite Let_def)
  then show ?thesis using six_decimals_point [OF p] by (simp only:)
qed simp_all

section \<open>The argument vector\<close>

lemma fmtSegTimes_loop_map: "fmtSegTimes_loop ts acc = acc @ map fmt6 ts"
  by (induction ts arbitrary: acc) auto

lemma command_args_append_Command:
  "command_args tr = None \<Longrightarrow> command_args (tr @ Command b args # es) = Some args"
  by (induction tr rule: command_args.induct) auto

lemma command_args_probe_profile: "command_args (snd (probe_profile w b cfg)) = None"
  by (auto simp: probe_profile_def detectVideoFormat_def Let_def split: option.splits sum.splits prod.splits)

lemma invocation_eq:
  assumes "2 \<le> length (SegmentTimes cfg)"
  shows "invocation w b cfg =
     Some ([''-loglevel'', ''warning''] @ seek_args (hd (SegmentTimes cfg)) @
           input_args cfg (last (SegmentTimes cfg)) (strings_Join (map fmt6 (tl (SegmentTimes cfg))) '','') @
           video_args cfg (fst (probe_profile w b cfg)) @ audio_args cfg @
           segment_args cfg (strings_Join (map fmt6 (tl (SegmentTimes cfg))) '',''))"
proof -
  from assms have ne: "SegmentTimes cfg \<noteq> []" by auto
  have h: "SegmentTimes cfg ! 0 = hd (SegmentTimes cfg)"
    using ne by (simp add: hd_conv_nth)
  have l: "SegmentTimes cfg ! (length (SegmentTimes cfg) - Suc 0) = last (SegmentTimes cfg)"
    using ne by (simp add: last_conv_nth)
  have d: "drop (Suc 0) (fmtSegTimes_loop (SegmentTimes cfg) []) = map fmt6 (tl (SegmentTimes cfg))"
    by (simp add: fmtSegTimes_loop_map drop_Suc map_tl)
  obtain u tr where p: "probe_profile w b cfg = (u, tr)" by (cases "probe_profile w b cfg")
  have c: "command_args tr = None" using command_args_probe_profile [of w b cfg] p by simp
  show ?thesis
    using assms
    by (simp add: invocation_def TranscodeSegments_def Let_def h l d p
        command_args_append_Command [OF c] split: option.splits)
qed

subsection \<open>The sample request, evaluated\<close>

lemma fmt6_samples:
  "fmt6 (Finite False 0 0) = ''0.000000''"
  "fmt6 (Finite False 2 0) = ''2.000000''"
  "fmt6 (Finite False 4 0) = ''4.000000''"
  "fmt6 (Finite False 6 0) = ''6.000000''"
  by (simp_all add: format_defs)

lemma show_int_samples:
  "show_int 0 = ''0''"
  "show_int 128 = ''128''"
  "show_int 720 = ''720''"
  "show_int 1280 = ''1280''"
  "show_int 2000 = ''2000''"
  by (simp_all add: format_defs)

lemma sample_path: "path_Join [''/tmp/out'', ''seg'' @ ''-%05d.ts''] = ''/tmp/out/seg-%05d.ts''"
  by (simp add: path_Join_def path_Clean_def clean_step_def)

lemma sample_probe: "probe_profile quiet_world ''/usr/bin/ffmpeg'' sample_config =
  (False, [Probe_Run ''/usr/bin/ffprobe'' [''-v'', ''quiet'', ''-print_format'', ''json'', ''-show_streams'',
                  ''-select_streams'', ''v:0'', ''in.mp4''],
     Log ''Warning: Could not detect video format, using default profile: failed to run ffprobe: exit status 1''])"
  by (simp add: probe_profile_def detectVideoFormat_def quiet_world_def sample_config_def)

section \<open>Claims\<close>

text \<open>
  Claim C2. For every configuration with at least two boundary times, the argument vector
  of the encoder command holds, after \<^verbatim>\<open>-force_key_frames\<close> and after \<^verbatim>\<open>-segment_times\<close>, one
  and the same string: the boundary times except the first, each printed by \<^verbatim>\<open>%.6f\<close>, joined
  by commas. The printed form of every finite time has exactly six digits after its point.
  The whole vector is given, so the places of the two flags are fixed.
\<close>

theorem keyframes_equal_segment_times:
  assumes "2 \<le> length (SegmentTimes cfg)"
  shows "\<exists>csv. csv = strings_Join (map fmt6 (tl (SegmentTimes cfg))) '','' \<and>
     invocation w b cfg =
       Some ([''-loglevel'', ''warning''] @ seek_args (hd (SegmentTimes cfg)) @
             [''-i'', InputFilePath cfg, ''-to'', fmt6 (last (SegmentTimes cfg)), ''-copyts'',
              ''-force_key_frames'', csv, ''-sn''] @
             video_args cfg (fst (probe_profile w b cfg)) @ audio_args cfg @
             [''-f'', ''segment'', ''-segment_time_delta'', ''0.2'', ''-segment_format'', ''mpegts'',
              ''-segment_times'', csv,
              ''-segment_start_number'', show_int (SegmentOffset cfg),
              ''-segment_list_type'', ''flat'', ''-segment_list'', ''pipe:1'',
              path_Join [OutputDirPath cfg, SegmentPrefix cfg @ ''-%05d.ts'']]) \<and>
     (\<forall>t \<in> set (tl (SegmentTimes cfg)). is_finite t \<longrightarrow> six_decimals (fmt6 t))"
  using invocation_eq [OF assms, of w b]
  by (simp add: input_args_def segment_args_def six_decimals_fmt6)

theorem keyframes_equal_segment_times_witness:
  "2 \<le> length (SegmentTimes sample_config) \<and>
   invocation quiet_world ''/usr/bin/ffmpeg'' sample_config =
     Some [''-loglevel'', ''warning'', ''-i'', ''in.mp4'', ''-to'', ''6.000000'', ''-copyts'',
           ''-force_key_frames'', ''2.000000,4.000000,6.000000'', ''-sn'',
           ''-vf'', ''scale=-2:720'', ''-c:v'', ''libx264'', ''-preset'', ''faster'',
           ''-profile:v'', ''high'', ''-level:v'', ''4.0'', ''-b:v'', ''2000k'',
           ''-c:a'', ''aac'', ''-b:a'', ''128k'',
           ''-f'', ''segment'', ''-segment_time_delta'', ''0.2'', ''-segment_format'', ''mpegts'',
           ''-segment_times'', ''2.000000,4.000000,6.000000'',
           ''-segment_start_number'', ''0'',
           ''-segment_list_type'', ''flat'', ''-segment_list'', ''pipe:1'',
           ''/tmp/out/seg-%05d.ts''] \<and>
   six_decimals ''2.000000''"
proof -
  have h: "2 \<le> length (SegmentTimes sample_config)" by (simp add: sample_config_def)
  have v: "video_args sample_config False =
      [''-vf'', ''scale=-2:720'', ''-c:v'', ''libx264'', ''-preset'', ''faster'',
       ''-profile:v'', ''high'', ''-level:v'', ''4.0'', ''-b:v'', ''2000k'']"
    by (simp add: video_args_def scale_filter_def sample_config_def show_int_samples)
  have a: "audio_args sample_config = [''-c:a'', ''aac'', ''-b:a'', ''128k'']"
    by (simp add: audio_args_def sample_config_def show_int_samples)
  have c: "SegmentTimes sample_config =
      [Finite False 0 0, Finite False 2 0, Finite False 4 0, Finite False 6 0]"
    "InputFilePath sample_config = ''in.mp4''" "SegmentOffset sample_config = 0"
    "OutputDirPath sample_config = ''/tmp/out''" "SegmentPrefix sample_config = ''seg''"
    by (simp_all add: sample_config_def)
  note t = keyframes_equal_segment_times [OF h, of quiet_world "''/usr/bin/ffmpeg''"]
  show ?thesis
    using h t sample_path
    by (simp add: c sample_probe v a seek_args_def fmt6_samples show_int_samples del: fmt6.simps)
qed

lemma snoc_k_not_ss: "x @ ''k'' \<noteq> ''-ss''"
proof
  assume e: "x @ ''k'' = ''-ss''"
  have "last (x @ ''k'') = CHR ''k''" by simp
  then show False unfolding e by simp
qed

lemma video_args_no_ss: "''-ss'' \<notin> set (video_args cfg u)"
  by (simp add: video_args_def scale_filter_def Let_def snoc_k_not_ss split: option.splits)

lemma audio_args_no_ss: "''-ss'' \<notin> set (audio_args cfg)"
  by (simp add: audio_args_def snoc_k_not_ss split: option.splits)

lemma segment_args_no_ss: "''-ss'' \<notin> set (segment_args cfg (strings_Join (map fmt6 ts) '',''))"
  using csv_not_ss [of ts] show_int_not_ss [of "SegmentOffset cfg"]
    segment_path_not_ss [of "OutputDirPath cfg" "SegmentPrefix cfg"]
  by (simp add: segment_args_def del: fmt6.simps) 

text \<open>
  Claim C3. For every configuration with at least two boundary times, the argument vector
  starts with \<^verbatim>\<open>-loglevel warning\<close>; then, exactly when the first boundary is greater
  than 0, come \<^verbatim>\<open>-ss\<close> and the first boundary printed by \<^verbatim>\<open>%.6f\<close>; then \<^verbatim>\<open>-i\<close> and the input
  path. Nothing after the input path is \<^verbatim>\<open>-ss\<close>. So the seek flag, when present, stands
  before the input flag, and when the first boundary is not greater than 0 the only
  argument that can read \<^verbatim>\<open>-ss\<close> is the input path itself, the operand of \<^verbatim>\<open>-i\<close>: for any
  other input path the string \<^verbatim>\<open>-ss\<close> is among the arguments if and only if the first
  boundary is greater than 0.
\<close>

theorem seek_flag_iff_positive_start:
  assumes "2 \<le> length (SegmentTimes cfg)"
  shows "\<exists>args post.
     invocation w b cfg = Some args \<and>
     args = [''-loglevel'', ''warning''] @
            (if gt0 (hd (SegmentTimes cfg)) then [''-ss'', fmt6 (hd (SegmentTimes cfg))] else []) @
            [''-i'', InputFilePath cfg] @ post \<and>
     ''-ss'' \<notin> set post \<and>
     (InputFilePath cfg \<noteq> ''-ss'' \<longrightarrow> (''-ss'' \<in> set args \<longleftrightarrow> gt0 (hd (SegmentTimes cfg))))"
proof -
  let ?csv = "strings_Join (map fmt6 (tl (SegmentTimes cfg))) '',''"
  let ?post = "[''-to'', fmt6 (last (SegmentTimes cfg)), ''-copyts'', ''-force_key_frames'', ?csv, ''-sn''] @
     video_args cfg (fst (probe_profile w b cfg)) @ audio_args cfg @ segment_args cfg ?csv"
  let ?args = "[''-loglevel'', ''warning''] @
            (if gt0 (hd (SegmentTimes cfg)) then [''-ss'', fmt6 (hd (SegmentTimes cfg))] else []) @
            [''-i'', InputFilePath cfg] @ ?post"
  have inv: "invocation w b cfg = Some ?args"
    using invocation_eq [OF assms, of w b] by (simp add: seek_args_def input_args_def)
  have post: "''-ss'' \<notin> set ?post"
    using fmt6_not_ss [of "last (SegmentTimes cfg)"] csv_not_ss [of "tl (SegmentTimes cfg)"]
      video_args_no_ss [of cfg "fst (probe_profile w b cfg)"] audio_args_no_ss [of cfg]
      segment_args_no_ss [of cfg "tl (SegmentTimes cfg)"]
    by (simp del: fmt6.simps)
  have iff: "InputFilePath cfg \<noteq> ''-ss'' \<longrightarrow> (''-ss'' \<in> set ?args \<longleftrightarrow> gt0 (hd (SegmentTimes cfg)))"
    using post fmt6_not_ss [of "hd (SegmentTimes cfg)"] by (auto simp del: fmt6.simps)
  from inv post iff show ?thesis by blast
qed

theorem seek_flag_iff_positive_start_witness:
  "2 \<le> length (SegmentTimes late_config) \<and>
   (\<exists>post. invocation quiet_world ''/usr/bin/ffmpeg'' late_config =
       Some ([''-loglevel'', ''warning'', ''-ss'', ''2.000000'', ''-i'', ''in.mp4''] @ post) \<and>
     ''-ss'' \<notin> set post)"
proof -
  have h: "2 \<le> length (SegmentTimes late_config)" by (simp add: late_config_def)
  have c: "hd (SegmentTimes late_config) = Finite False 2 0" "InputFilePath late_config = ''in.mp4''"
    by (simp_all add: late_config_def sample_config_def)
  show ?thesis
    using h seek_flag_iff_positive_start [OF h, of quiet_world "''/usr/bin/ffmpeg''"]
    by (auto simp: c fmt6_samples simp del: fmt6.simps)
qed

end
